theory Spec2Isabelle
  imports Main "HOL-Library.Word" "HOL-Library.Code_Target_Numeral"
begin

section \<open>The random-user screen: data, effects and handlers\<close>

text \<open>
  The repository holds two variants of one React Native screen: \<^verbatim>\<open>src/App.js\<close> and
  \<^verbatim>\<open>src/unnamed/part_000\<close>. They share \<^verbatim>\<open>fetchUsers\<close>, \<^verbatim>\<open>loadData\<close> and
  \<^verbatim>\<open>keyExtractor\<close> word for word. They differ in \<^verbatim>\<open>onRefresh\<close> (only
  \<^verbatim>\<open>part_000\<close> has the cooldown and the \<^verbatim>\<open>lastRefreshTime\<close> state), in the
  \<^verbatim>\<open>catch\<close> block of \<^verbatim>\<open>addUser\<close> (only \<^verbatim>\<open>part_000\<close> raises alerts) and in
  \<^verbatim>\<open>renderItem\<close> (only \<^verbatim>\<open>part_000\<close> computes the initials itself). The definitions
  without a suffix follow \<^verbatim>\<open>part_000\<close>; the ones that end in \<open>_App\<close> follow
  \<^verbatim>\<open>App.js\<close> where it differs.
\<close>

subsection \<open>Strings and records\<close>

text \<open>
  A JavaScript string is a sequence of UTF-16 code units, and \<^verbatim>\<open>s[0]\<close> reads one code
  unit. Names and image references are therefore lists of 16-bit words. Alert texts and
  URLs are ASCII literals of the source, and the row keys printed from numbers are ASCII
  too; they are kept as \<open>string\<close>.
\<close>

type_synonym jsstring = "16 word list"

definition ascii :: "string \<Rightarrow> jsstring" where
  "ascii s = map (\<lambda>c. of_nat (of_char c)) s"

text \<open>
  One element of the JSON array the API answers with. Only the four fields the screen
  reads are kept. The identifier is kept as the integer literal of the JSON text; the
  Number the code holds for it after parsing is \<open>JSON_number\<close> of it, defined with the
  list renderer below.
\<close>

record user =
  id' :: int
  first_name :: jsstring
  last_name :: jsstring
  avatar :: jsstring

text \<open>
  What an element of the \<^verbatim>\<open>users\<close> array can be: a record, or \<^verbatim>\<open>undefined\<close>,
  which is what \<^verbatim>\<open>data[0]\<close> yields on an empty array.
\<close>

datatype item = Undefined | Record user

text \<open>
  What a JavaScript expression of the screen can throw: the rejection of
  \<^verbatim>\<open>axios.get\<close>, whose \<^verbatim>\<open>error.response\<close> is absent when no HTTP answer arrived and
  carries the status otherwise, and the \<^verbatim>\<open>TypeError\<close> of a property read on
  \<^verbatim>\<open>undefined\<close>.
\<close>

datatype js_error = AxiosError "nat option" | TypeError

subsection \<open>Effects\<close>

text \<open>
  Everything a handler does besides computing is an event of its trace, in program order:
  the HTTP request, the alert, the console line, and the calls of the state setters.
  \<open>SetUsersWith\<close> is the functional form \<^verbatim>\<open>setUsers((prevUsers) => ...)\<close>.
\<close>

datatype event =
    Get string
  | Alert string string
  | ConsoleError string js_error
  | SetUsers "item list"
  | SetUsersWith "item list \<Rightarrow> item list"
  | SetRefreshing bool
  | SetLoading bool
  | SetLastRefreshTime int

text \<open>The view state of \<^verbatim>\<open>App\<close>, one field per \<^verbatim>\<open>useState\<close>.\<close>

record ScreenState =
  users :: "item list"
  refreshing :: bool
  loading :: bool
  lastRefreshTime :: int

definition initial_state :: ScreenState where
  "initial_state = \<lparr>users = [], refreshing = False, loading = True, lastRefreshTime = 0\<rparr>"

fun apply_event :: "event \<Rightarrow> ScreenState \<Rightarrow> ScreenState" where
  "apply_event (SetUsers us) s = s\<lparr>users := us\<rparr>"
| "apply_event (SetUsersWith f) s = s\<lparr>users := f (users s)\<rparr>"
| "apply_event (SetRefreshing b) s = s\<lparr>refreshing := b\<rparr>"
| "apply_event (SetLoading b) s = s\<lparr>loading := b\<rparr>"
| "apply_event (SetLastRefreshTime t) s = s\<lparr>lastRefreshTime := t\<rparr>"
| "apply_event (Get url) s = s"
| "apply_event (Alert title message) s = s"
| "apply_event (ConsoleError message e) s = s"

text \<open>The state after a handler has run: its setter calls applied in order.\<close>

definition commit :: "event list \<Rightarrow> ScreenState \<Rightarrow> ScreenState" where
  "commit tr s = foldl (\<lambda>s e. apply_event e s) s tr"

text \<open>The requests and the alerts of a trace.\<close>

fun http_gets :: "event list \<Rightarrow> string list" where
  "http_gets [] = []"
| "http_gets (Get url # tr) = url # http_gets tr"
| "http_gets (e # tr) = http_gets tr"

fun alerts :: "event list \<Rightarrow> (string \<times> string) list" where
  "alerts [] = []"
| "alerts (Alert title message # tr) = (title, message) # alerts tr"
| "alerts (e # tr) = alerts tr"

subsection \<open>The network\<close>

text \<open>
  The remote API is a parameter: for a URL, either the parsed \<^verbatim>\<open>response.data\<close>
  (\<open>Inr\<close>) or the error \<^verbatim>\<open>axios.get\<close> rejects with (\<open>Inl\<close>). axios rejects on every
  transport failure and on every status outside 2xx.
\<close>

type_synonym network = "string \<Rightarrow> js_error + item list"

definition axios_get :: "network \<Rightarrow> string \<Rightarrow> (js_error + item list) \<times> event list" where
  "axios_get net url = (net url, [Get url])"

text \<open>\<^verbatim>\<open>error.response && error.response.status === 429\<close>\<close>

fun is_429 :: "js_error \<Rightarrow> bool" where
  "is_429 (AxiosError (Some status)) = (status = 429)"
| "is_429 (AxiosError None) = False"
| "is_429 TypeError = False"

subsection \<open>The data fetcher\<close>

definition API_URL :: string where
  "API_URL = ''https://random-data-api.com/api/users/random_user?size=10''"

definition fetchUsers :: "network \<Rightarrow> (js_error + item list) \<times> event list" where
  "fetchUsers net =
     (case axios_get net API_URL of
        (Inr response_data, tr) \<Rightarrow> (Inr response_data, tr)
      | (Inl error, tr) \<Rightarrow>
          (if is_429 error
           then (Inr [],
                 tr @ [Alert ''Too Many Requests'' ''Please wait before refreshing again.'',
                       ConsoleError ''Error fetching users: Too Many Requests'' error])
           else (Inr [],
                 tr @ [ConsoleError ''Error fetching users'' error,
                       Alert ''Error'' ''Failed to load users. Please try again later.''])))"

subsection \<open>The screen controller\<close>

text \<open>
  A handler returns how it completed (\<open>Inl\<close>: it threw, and the statements after the
  throwing one did not run) and its trace.
\<close>

definition loadData :: "network \<Rightarrow> (js_error + unit) \<times> event list" where
  "loadData net =
     (case fetchUsers net of
        (Inl e, tr) \<Rightarrow> (Inl e, tr)
      | (Inr fetchedUsers, tr) \<Rightarrow>
          (Inr (), tr @ [SetUsers fetchedUsers, SetLoading False]))"

text \<open>
  \<^verbatim>\<open>onRefresh\<close> of \<^verbatim>\<open>part_000\<close>. \<open>currentTime\<close> is the value of \<^verbatim>\<open>Date.now()\<close>, in
  milliseconds; \<open>st\<close> is the state of the render that created the callback (its
  dependency list names \<^verbatim>\<open>lastRefreshTime\<close>).
\<close>

definition onRefresh :: "network \<Rightarrow> int \<Rightarrow> ScreenState \<Rightarrow> (js_error + unit) \<times> event list" where
  "onRefresh net currentTime st =
     (if currentTime - lastRefreshTime st < 10000
      then (Inr (),
            [Alert ''Too Many Refreshes'' ''Please wait 10 seconds before refreshing again.''])
      else
        (case fetchUsers net of
           (Inl e, tr) \<Rightarrow> (Inl e, SetRefreshing True # tr)
         | (Inr fetchedUsers, tr) \<Rightarrow>
             (Inr (),
              SetRefreshing True # tr @
                [SetUsers fetchedUsers, SetRefreshing False, SetLastRefreshTime currentTime])))"

text \<open>\<^verbatim>\<open>onRefresh\<close> of \<^verbatim>\<open>App.js\<close>: no cooldown, no timestamp.\<close>

definition onRefresh_App :: "network \<Rightarrow> (js_error + unit) \<times> event list" where
  "onRefresh_App net =
     (case fetchUsers net of
        (Inl e, tr) \<Rightarrow> (Inl e, SetRefreshing True # tr)
      | (Inr fetchedUsers, tr) \<Rightarrow>
          (Inr (), SetRefreshing True # tr @ [SetUsers fetchedUsers, SetRefreshing False]))"

text \<open>\<^verbatim>\<open>xs[i]\<close> on a JavaScript array: \<^verbatim>\<open>undefined\<close> out of range.\<close>

definition array_at :: "item list \<Rightarrow> nat \<Rightarrow> item" where
  "array_at xs i = (if i < length xs then xs ! i else Undefined)"

definition ADD_URL :: string where
  "ADD_URL = ''https://random-data-api.com/api/users/random_user?size=1''"

text \<open>\<^verbatim>\<open>addUser\<close> of \<^verbatim>\<open>part_000\<close>.\<close>

definition addUser :: "network \<Rightarrow> (js_error + unit) \<times> event list" where
  "addUser net =
     (case axios_get net ADD_URL of
        (Inr newUserResponse_data, tr) \<Rightarrow>
          (Inr (),
           tr @ [SetUsersWith (\<lambda>prevUsers. array_at newUserResponse_data 0 # prevUsers)])
      | (Inl error, tr) \<Rightarrow>
          (if is_429 error
           then (Inr (),
                 tr @ [Alert ''Too Many Requests'' ''Please wait before adding more users.''])
           else (Inr (),
                 tr @ [ConsoleError ''Error fetching new user: '' error,
                       Alert ''Error'' ''Failed to add a new user. Please try again.''])))"

text \<open>\<^verbatim>\<open>addUser\<close> of \<^verbatim>\<open>App.js\<close>: the \<^verbatim>\<open>catch\<close> block only logs.\<close>

definition addUser_App :: "network \<Rightarrow> (js_error + unit) \<times> event list" where
  "addUser_App net =
     (case axios_get net ADD_URL of
        (Inr newUserResponse_data, tr) \<Rightarrow>
          (Inr (),
           tr @ [SetUsersWith (\<lambda>prevUsers. array_at newUserResponse_data 0 # prevUsers)])
      | (Inl error, tr) \<Rightarrow>
          (Inr (), tr @ [ConsoleError ''Error fetching new user: '' error]))"

subsection \<open>The list renderer\<close>

text \<open>
  A Number that came from an integer literal: a double with an integer value, or an
  infinity. \<^verbatim>\<open>JSON.parse\<close> yields the double nearest to the literal, ties to the even
  significand of 53 bits, and an infinity when that rounding reaches \<open>2 ^ 1024\<close>.
  Every integer below \<open>2 ^ 53\<close> in magnitude is a double itself.
\<close>

datatype number = Num int | PosInfinity | NegInfinity

fun bit_length :: "nat \<Rightarrow> nat" where
  "bit_length n = (if n = 0 then 0 else Suc (bit_length (n div 2)))"

declare bit_length.simps [simp del]

definition round_to_double :: "nat \<Rightarrow> nat" where
  "round_to_double n =
     (if n < 2 ^ 53 then n
      else
        (let e = bit_length n - 53; q = n div 2 ^ e; r = n mod 2 ^ e
         in (if 2 ^ e < 2 * r \<or> (2 * r = 2 ^ e \<and> odd q) then q + 1 else q) * 2 ^ e))"

definition JSON_number :: "int \<Rightarrow> number" where
  "JSON_number i =
     (let m = round_to_double (nat \<bar>i\<bar>)
      in if 2 ^ 1024 \<le> m then (if i < 0 then NegInfinity else PosInfinity)
         else Num (if i < 0 then - int m else int m))"

text \<open>The decimal digits of an integer, with a leading minus sign below zero.\<close>

definition digit_char :: "nat \<Rightarrow> char" where
  "digit_char d = ''0123456789'' ! d"

fun decimal :: "nat \<Rightarrow> string" where
  "decimal n = (if n < 10 then [digit_char n] else decimal (n div 10) @ [digit_char (n mod 10)])"

declare decimal.simps [simp del]

definition signed_decimal :: "int \<Rightarrow> string" where
  "signed_decimal i = (if i < 0 then CHR ''-'' # decimal (nat (- i)) else decimal (nat i))"

text \<open>
  \<^verbatim>\<open>Number.prototype.toString\<close> is a built-in of the language. On an integer of
  magnitude at most \<open>2 ^ 53\<close> it prints the decimal digits, and on the infinities their
  names. On a larger integer it prints the shortest digits that read back as the same
  double, filled with zeros, and exponent notation from \<open>10 ^ 21\<close>; that output is not
  computed here but taken as the parameter \<open>render\<close>, so that what is proved holds whatever
  is printed there.
\<close>

definition toString :: "(int \<Rightarrow> string) \<Rightarrow> number \<Rightarrow> string" where
  "toString render x =
     (case x of
        Num m \<Rightarrow> if \<bar>m\<bar> \<le> 2 ^ 53 then signed_decimal m else render m
      | PosInfinity \<Rightarrow> ''Infinity''
      | NegInfinity \<Rightarrow> ''-Infinity'')"

text \<open>
  \<^verbatim>\<open>(item) => item.id.toString()\<close>; reading \<^verbatim>\<open>id\<close> of \<^verbatim>\<open>undefined\<close> throws.
\<close>

definition keyExtractor :: "(int \<Rightarrow> string) \<Rightarrow> item \<Rightarrow> js_error + string" where
  "keyExtractor render item =
     (case item of
        Undefined \<Rightarrow> Inl TypeError
      | Record u \<Rightarrow> Inr (toString render (JSON_number (id' u))))"

text \<open>
  \<^verbatim>\<open>s[i]\<close> on a string is the one-unit string at \<open>i\<close>, or \<^verbatim>\<open>undefined\<close> (\<open>None\<close>) out
  of range; a template literal prints \<^verbatim>\<open>undefined\<close> as that word.
\<close>

definition string_at :: "jsstring \<Rightarrow> nat \<Rightarrow> jsstring option" where
  "string_at s i = (if i < length s then Some [s ! i] else None)"

definition interpolate :: "jsstring option \<Rightarrow> jsstring" where
  "interpolate v = (case v of None \<Rightarrow> ascii ''undefined'' | Some s \<Rightarrow> s)"

datatype avatar_view = InitialsBadge jsstring | RemoteImage jsstring

record row =
  name_text :: jsstring
  avatar_of :: avatar_view

text \<open>\<^verbatim>\<open>renderItem\<close> of \<^verbatim>\<open>part_000\<close>; \<open>Platform_OS\<close> is \<^verbatim>\<open>Platform.OS\<close>.\<close>

definition renderItem :: "string \<Rightarrow> item \<Rightarrow> js_error + row" where
  "renderItem Platform_OS item =
     (case item of
        Undefined \<Rightarrow> Inl TypeError
      | Record u \<Rightarrow>
          Inr \<lparr>name_text = first_name u @ ascii '' '' @ last_name u,
               avatar_of =
                 (if Platform_OS = ''ios''
                  then InitialsBadge
                         (interpolate (string_at (first_name u) 0) @
                          interpolate (string_at (last_name u) 0))
                  else RemoteImage (avatar u))\<rparr>)"

subsection \<open>The specification's request, and sample data\<close>

text \<open>
  The specification's \<^verbatim>\<open>fetchBatch(count)\<close> addresses
  \<^verbatim>\<open>.../api/users/random_user?size={N}\<close>. This is the URL it names for a count, written
  from the specification's words, to compare the requests of the code with.
\<close>

definition spec_batch_url :: "nat \<Rightarrow> string" where
  "spec_batch_url N = ''https://random-data-api.com/api/users/random_user?size='' @ decimal N"

text \<open>Records and a state used as concrete inputs.\<close>

definition user42 :: user where
  "user42 = \<lparr>id' = 42, first_name = ascii ''Ada'', last_name = ascii ''Byron'', avatar = []\<rparr>"

definition user7 :: user where
  "user7 = \<lparr>id' = 7, first_name = ascii ''Al'', last_name = [], avatar = []\<rparr>"

definition big_a :: user where
  "big_a = \<lparr>id' = 9007199254740992, first_name = ascii ''Al'', last_name = ascii ''Ba'',
            avatar = []\<rparr>"

definition big_b :: user where
  "big_b = \<lparr>id' = 9007199254740993, first_name = ascii ''Cy'', last_name = ascii ''Di'',
            avatar = []\<rparr>"

definition ready_state :: ScreenState where
  "ready_state =
     \<lparr>users = [Record user7], refreshing = False, loading = False,
      lastRefreshTime = 1700000000000\<rparr>"

section \<open>Properties\<close>

subsection \<open>Traces and the fetcher\<close>

lemma fetchUsers_cases:
  "fetchUsers net =
     (case net API_URL of
        Inr ds \<Rightarrow> (Inr ds, [Get API_URL])
      | Inl e \<Rightarrow>
          (if is_429 e
           then (Inr [],
                 [Get API_URL,
                  Alert ''Too Many Requests'' ''Please wait before refreshing again.'',
                  ConsoleError ''Error fetching users: Too Many Requests'' e])
           else (Inr [],
                 [Get API_URL,
                  ConsoleError ''Error fetching users'' e,
                  Alert ''Error'' ''Failed to load users. Please try again later.''])))"
  by (simp add: fetchUsers_def axios_get_def split: sum.splits)

lemma commit_Nil: "commit [] s = s"
  by (simp add: commit_def)

lemma commit_Cons: "commit (e # tr) s = commit tr (apply_event e s)"
  by (simp add: commit_def)

lemma commit_append: "commit (tr @ tr') s = commit tr' (commit tr s)"
  by (simp add: commit_def)

lemma http_gets_append: "http_gets (tr @ tr') = http_gets tr @ http_gets tr'"
  by (induction tr rule: http_gets.induct) simp_all

lemma fetchUsers_returns: "\<exists>ds. fst (fetchUsers net) = Inr ds"
  by (simp add: fetchUsers_cases split: sum.splits)

lemma fetchUsers_gets: "http_gets (snd (fetchUsers net)) = [API_URL]"
  by (simp add: fetchUsers_cases split: sum.splits)

lemma fetchUsers_frame: "commit (snd (fetchUsers net)) s = s"
  by (simp add: fetchUsers_cases commit_Cons commit_Nil split: sum.splits)

lemma alerts_append: "alerts (tr @ tr') = alerts tr @ alerts tr'"
  by (induction tr rule: alerts.induct) simp_all

lemma fetchUsers_result:
  "fst (fetchUsers net) = Inr (case net API_URL of Inr d \<Rightarrow> d | Inl e \<Rightarrow> [])"
  by (simp add: fetchUsers_cases split: sum.splits)

text \<open>The refresh of \<^verbatim>\<open>App.js\<close>, for every network and state.\<close>

lemma onRefresh_App_trace:
  "onRefresh_App net =
     (Inr (),
      SetRefreshing True # snd (fetchUsers net) @
        [SetUsers (case net API_URL of Inr d \<Rightarrow> d | Inl e \<Rightarrow> []), SetRefreshing False])"
proof -
  obtain tr where "fetchUsers net = (Inr (case net API_URL of Inr d \<Rightarrow> d | Inl e \<Rightarrow> []), tr)"
    using fetchUsers_result [of net] by (cases "fetchUsers net") simp
  then show ?thesis by (simp add: onRefresh_App_def)
qed

lemma onRefresh_App_gets: "http_gets (snd (onRefresh_App net)) = [API_URL]"
  by (simp add: onRefresh_App_trace http_gets_append fetchUsers_gets)

lemma onRefresh_App_alerts: "alerts (snd (onRefresh_App net)) = alerts (snd (fetchUsers net))"
  by (simp add: onRefresh_App_trace alerts_append)

lemma onRefresh_App_commit:
  "commit (snd (onRefresh_App net)) st =
     st\<lparr>users := (case net API_URL of Inr d \<Rightarrow> d | Inl e \<Rightarrow> []), refreshing := False\<rparr>"
  by (simp add: onRefresh_App_trace commit_Cons commit_append commit_Nil fetchUsers_frame)

subsection \<open>Refresh and its cooldown\<close>

text \<open>
  Claim C1, as amended. In \<^verbatim>\<open>part_000\<close> a pull-to-refresh request made while
  \<^verbatim>\<open>currentTime - lastRefreshTime\<close> is below the cooldown of 10000 ms does nothing but raise
  one alert: no HTTP request, exactly one notification, and the state (the records, the
  refreshing flag and the last-refresh timestamp among it) is what it was. \<^verbatim>\<open>App.js\<close>
  has no cooldown: at the same moment its refresh issues the request for ten records,
  raises no alert but the fetcher's own on a failure, and replaces the records by the fetch
  result.
\<close>

theorem onRefresh_within_cooldown:
  assumes "currentTime - lastRefreshTime st < 10000"
  shows "onRefresh net currentTime st =
           (Inr (), [Alert ''Too Many Refreshes''
                       ''Please wait 10 seconds before refreshing again.''])
       \<and> http_gets (snd (onRefresh net currentTime st)) = []
       \<and> length (alerts (snd (onRefresh net currentTime st))) = 1
       \<and> commit (snd (onRefresh net currentTime st)) st = st
       \<and> fst (onRefresh_App net) = Inr ()
       \<and> http_gets (snd (onRefresh_App net)) = [API_URL]
       \<and> alerts (snd (onRefresh_App net)) = alerts (snd (fetchUsers net))
       \<and> users (commit (snd (onRefresh_App net)) st) =
           (case net API_URL of Inr d \<Rightarrow> d | Inl e \<Rightarrow> [])"
proof -
  have "onRefresh net currentTime st =
           (Inr (), [Alert ''Too Many Refreshes''
                       ''Please wait 10 seconds before refreshing again.''])"
    using assms by (simp add: onRefresh_def)
  moreover have "http_gets (snd (onRefresh net currentTime st)) = []"
    using assms by (simp add: onRefresh_def)
  moreover have "length (alerts (snd (onRefresh net currentTime st))) = 1"
    using assms by (simp add: onRefresh_def)
  moreover have "commit (snd (onRefresh net currentTime st)) st = st"
    using assms by (simp add: onRefresh_def commit_Cons commit_Nil)
  moreover have "fst (onRefresh_App net) = Inr ()"
    by (simp add: onRefresh_App_trace)
  moreover have "users (commit (snd (onRefresh_App net)) st) =
           (case net API_URL of Inr d \<Rightarrow> d | Inl e \<Rightarrow> [])"
    by (simp add: onRefresh_App_commit)
  ultimately show ?thesis
    using onRefresh_App_gets [of net] onRefresh_App_alerts [of net] by blast
qed

theorem onRefresh_within_cooldown_witness:
  "(1700000004000::int) - lastRefreshTime ready_state < 10000
   \<and> onRefresh (\<lambda>url. Inr [Record user42]) 1700000004000 ready_state =
       (Inr (), [Alert ''Too Many Refreshes''
                   ''Please wait 10 seconds before refreshing again.''])
   \<and> http_gets (snd (onRefresh (\<lambda>url. Inr [Record user42]) 1700000004000 ready_state)) = []
   \<and> length (alerts (snd (onRefresh (\<lambda>url. Inr [Record user42]) 1700000004000
                              ready_state))) = 1
   \<and> commit (snd (onRefresh (\<lambda>url. Inr [Record user42]) 1700000004000 ready_state))
        ready_state = ready_state
   \<and> http_gets (snd (onRefresh_App (\<lambda>url. Inr [Record user42]))) = [API_URL]
   \<and> users (commit (snd (onRefresh_App (\<lambda>url. Inr [Record user42]))) ready_state) =
       [Record user42]"
proof -
  have h: "(1700000004000::int) - lastRefreshTime ready_state < 10000"
    by (simp add: ready_state_def)
  have n: "(case (\<lambda>url. Inr [Record user42]) API_URL of
              Inr d \<Rightarrow> d | Inl (e::js_error) \<Rightarrow> []) = [Record user42]"
    by simp
  from onRefresh_within_cooldown [OF h, of "\<lambda>url. Inr [Record user42]"] h
  show ?thesis unfolding n by blast
qed

text \<open>
  The claim as first stated speaks of every refresh handler. The handler of
  \<^verbatim>\<open>App.js\<close> does not read the clock: with the records of \<open>ready_state\<close> on screen,
  however short the time since the last refresh, it issues the request, raises no alert and
  replaces the records.
\<close>

theorem onRefresh_App_ignores_cooldown:
  "http_gets (snd (onRefresh_App (\<lambda>url. Inr [Record user42]))) = [API_URL]
   \<and> alerts (snd (onRefresh_App (\<lambda>url. Inr [Record user42]))) = []
   \<and> users ready_state = [Record user7]
   \<and> users (commit (snd (onRefresh_App (\<lambda>url. Inr [Record user42]))) ready_state) =
       [Record user42]"
  by (simp add: onRefresh_App_def fetchUsers_cases commit_Cons commit_Nil ready_state_def)

subsection \<open>The fetcher absorbs every failure\<close>

text \<open>
  Claim C2. \<^verbatim>\<open>fetchUsers\<close> never throws to its caller, whatever the request does. When the
  request succeeds it returns the response's array and raises no alert. When the request
  fails it returns the empty array and raises exactly one alert, and the alert for
  HTTP 429 differs from the alert for every other failure.
\<close>

theorem fetchUsers_absorbs_failures:
  "(\<exists>ds. fst (fetchUsers net) = Inr ds)
   \<and> (\<forall>ds. net API_URL = Inr ds \<longrightarrow>
          fst (fetchUsers net) = Inr ds \<and> alerts (snd (fetchUsers net)) = [])
   \<and> (\<forall>e. net API_URL = Inl e \<longrightarrow>
          fst (fetchUsers net) = Inr []
        \<and> alerts (snd (fetchUsers net)) =
            [if e = AxiosError (Some 429)
             then (''Too Many Requests'', ''Please wait before refreshing again.'')
             else (''Error'', ''Failed to load users. Please try again later.'')])
   \<and> (''Too Many Requests'', ''Please wait before refreshing again.'') \<noteq>
       (''Error'', ''Failed to load users. Please try again later.'')"
proof (intro conjI allI impI)
  show "\<exists>ds. fst (fetchUsers net) = Inr ds" by (rule fetchUsers_returns)
next
  fix ds assume "net API_URL = Inr ds"
  then show "fst (fetchUsers net) = Inr ds" and "alerts (snd (fetchUsers net)) = []"
    by (simp_all add: fetchUsers_cases)
next
  fix e assume "net API_URL = Inl e"
  then show "fst (fetchUsers net) = Inr []" by (simp add: fetchUsers_cases)
next
  fix e assume e: "net API_URL = Inl e"
  have "is_429 e \<longleftrightarrow> e = AxiosError (Some 429)"
    by (cases e rule: is_429.cases) simp_all
  with e show "alerts (snd (fetchUsers net)) =
            [if e = AxiosError (Some 429)
             then (''Too Many Requests'', ''Please wait before refreshing again.'')
             else (''Error'', ''Failed to load users. Please try again later.'')]"
    by (simp add: fetchUsers_cases)
next
  show "(''Too Many Requests'', ''Please wait before refreshing again.'') \<noteq>
       (''Error'', ''Failed to load users. Please try again later.'')" by simp
qed

theorem fetchUsers_absorbs_failures_witness:
  "fst (fetchUsers (\<lambda>url. Inl (AxiosError (Some 429)))) = Inr []
   \<and> alerts (snd (fetchUsers (\<lambda>url. Inl (AxiosError (Some 429))))) =
       [(''Too Many Requests'', ''Please wait before refreshing again.'')]
   \<and> fst (fetchUsers (\<lambda>url. Inl (AxiosError None))) = Inr []
   \<and> alerts (snd (fetchUsers (\<lambda>url. Inl (AxiosError None)))) =
       [(''Error'', ''Failed to load users. Please try again later.'')]"
  using fetchUsers_absorbs_failures [of "\<lambda>url. Inl (AxiosError (Some 429))"]
        fetchUsers_absorbs_failures [of "\<lambda>url. Inl (AxiosError None)"]
  by simp

subsection \<open>The initial load\<close>


subsection \<open>An accepted refresh\<close>

text \<open>
  Claim C4, as amended. In \<^verbatim>\<open>part_000\<close> a refresh that passes the cooldown check sets
  the refreshing flag, issues the one request for ten records, replaces the records,
  whatever they were, by what the request returned (the empty array on a failure), clears
  the refreshing flag and records \<open>currentTime\<close> as the last refresh, in this order.
  The refresh of \<^verbatim>\<open>App.js\<close>, which has no cooldown check, does the same on every request
  but for the last step: it records no time.
\<close>

theorem onRefresh_accepted:
  assumes "\<not> currentTime - lastRefreshTime st < 10000"
  shows "\<exists>ds. fst (fetchUsers net) = Inr ds
       \<and> ds = (case net API_URL of Inr d \<Rightarrow> d | Inl e \<Rightarrow> [])
       \<and> onRefresh net currentTime st =
           (Inr (),
            SetRefreshing True # snd (fetchUsers net) @
              [SetUsers ds, SetRefreshing False, SetLastRefreshTime currentTime])
       \<and> http_gets (snd (onRefresh net currentTime st)) = [API_URL]
       \<and> commit (snd (onRefresh net currentTime st)) st =
           st\<lparr>users := ds, refreshing := False, lastRefreshTime := currentTime\<rparr>
       \<and> onRefresh_App net =
           (Inr (),
            SetRefreshing True # snd (fetchUsers net) @ [SetUsers ds, SetRefreshing False])
       \<and> http_gets (snd (onRefresh_App net)) = [API_URL]
       \<and> commit (snd (onRefresh_App net)) st = st\<lparr>users := ds, refreshing := False\<rparr>"
proof -
  define ds where "ds = (case net API_URL of Inr d \<Rightarrow> d | Inl (e::js_error) \<Rightarrow> [])"
  have r: "fst (fetchUsers net) = Inr ds"
    unfolding ds_def by (rule fetchUsers_result)
  obtain tr where tr: "fetchUsers net = (Inr ds, tr)"
    using r by (cases "fetchUsers net") simp
  have g: "http_gets tr = [API_URL]" using fetchUsers_gets [of net] tr by simp
  have f: "\<And>s. commit tr s = s" using fetchUsers_frame [of net] tr by simp
  have "onRefresh net currentTime st =
           (Inr (),
            SetRefreshing True # snd (fetchUsers net) @
              [SetUsers ds, SetRefreshing False, SetLastRefreshTime currentTime])"
    using assms tr by (simp add: onRefresh_def)
  moreover have "http_gets (snd (onRefresh net currentTime st)) = [API_URL]"
    using assms tr g by (simp add: onRefresh_def http_gets_append)
  moreover have "commit (snd (onRefresh net currentTime st)) st =
           st\<lparr>users := ds, refreshing := False, lastRefreshTime := currentTime\<rparr>"
    using assms tr f by (simp add: onRefresh_def commit_Cons commit_append commit_Nil)
  moreover have "onRefresh_App net =
           (Inr (),
            SetRefreshing True # snd (fetchUsers net) @ [SetUsers ds, SetRefreshing False])"
    unfolding ds_def by (rule onRefresh_App_trace)
  moreover have "http_gets (snd (onRefresh_App net)) = [API_URL]"
    by (rule onRefresh_App_gets)
  moreover have "commit (snd (onRefresh_App net)) st = st\<lparr>users := ds, refreshing := False\<rparr>"
    unfolding ds_def by (rule onRefresh_App_commit)
  ultimately show ?thesis using r ds_def by blast
qed

theorem onRefresh_accepted_witness:
  "\<not> (1700000060000::int) - lastRefreshTime ready_state < 10000
   \<and> users ready_state = [Record user7]
   \<and> onRefresh (\<lambda>url. Inr [Record user42]) 1700000060000 ready_state =
       (Inr (),
        [SetRefreshing True, Get API_URL, SetUsers [Record user42], SetRefreshing False,
         SetLastRefreshTime 1700000060000])
   \<and> http_gets (snd (onRefresh (\<lambda>url. Inr [Record user42]) 1700000060000 ready_state)) =
       [API_URL]
   \<and> commit (snd (onRefresh (\<lambda>url. Inr [Record user42]) 1700000060000 ready_state))
        ready_state =
       ready_state\<lparr>users := [Record user42], refreshing := False,
                    lastRefreshTime := 1700000060000\<rparr>
   \<and> commit (snd (onRefresh_App (\<lambda>url. Inr [Record user42]))) ready_state =
       ready_state\<lparr>users := [Record user42], refreshing := False\<rparr>"
proof -
  have h: "\<not> (1700000060000::int) - lastRefreshTime ready_state < 10000"
    by (simp add: ready_state_def)
  have u: "users ready_state = [Record user7]"
    by (simp add: ready_state_def)
  have f: "snd (fetchUsers (\<lambda>url. Inr [Record user42])) = [Get API_URL]"
    by (simp add: fetchUsers_cases)
  from onRefresh_accepted [OF h, of "\<lambda>url. Inr [Record user42]"]
  obtain ds where d: "ds = (case (\<lambda>url. Inr [Record user42]) API_URL of
                             Inr d \<Rightarrow> d | Inl (e::js_error) \<Rightarrow> [])"
    and t: "onRefresh (\<lambda>url. Inr [Record user42]) 1700000060000 ready_state =
           (Inr (),
            SetRefreshing True # snd (fetchUsers (\<lambda>url. Inr [Record user42])) @
              [SetUsers ds, SetRefreshing False, SetLastRefreshTime 1700000060000])"
    and g: "http_gets (snd (onRefresh (\<lambda>url. Inr [Record user42]) 1700000060000
                               ready_state)) = [API_URL]"
    and c: "commit (snd (onRefresh (\<lambda>url. Inr [Record user42]) 1700000060000 ready_state))
              ready_state =
            ready_state\<lparr>users := ds, refreshing := False,
                         lastRefreshTime := 1700000060000\<rparr>"
    and c': "commit (snd (onRefresh_App (\<lambda>url. Inr [Record user42]))) ready_state =
            ready_state\<lparr>users := ds, refreshing := False\<rparr>"
    by blast
  from d have ds: "ds = [Record user42]" by simp
  from t have t': "onRefresh (\<lambda>url. Inr [Record user42]) 1700000060000 ready_state =
       (Inr (),
        [SetRefreshing True, Get API_URL, SetUsers [Record user42], SetRefreshing False,
         SetLastRefreshTime 1700000060000])"
    unfolding f ds by simp
  from h u t' g c [unfolded ds] c' [unfolded ds] show ?thesis by blast
qed

text \<open>
  The claim as first stated has every refresh record the current time. The refresh of
  \<^verbatim>\<open>App.js\<close> calls no setter but those of the records and of the refreshing flag, and
  the timestamp stays what it was.
\<close>

theorem onRefresh_App_records_no_time:
  "snd (onRefresh_App (\<lambda>url. Inr [Record user42])) =
     [SetRefreshing True, Get API_URL, SetUsers [Record user42], SetRefreshing False]
   \<and> lastRefreshTime (commit (snd (onRefresh_App (\<lambda>url. Inr [Record user42]))) ready_state) =
       lastRefreshTime ready_state"
  by (simp add: onRefresh_App_def fetchUsers_cases commit_Cons commit_Nil)

subsection \<open>The add action\<close>

lemma addUser_success:
  "net ADD_URL = Inr ds \<Longrightarrow>
   addUser net = (Inr (), [Get ADD_URL, SetUsersWith (\<lambda>prevUsers. array_at ds 0 # prevUsers)])"
  by (simp add: addUser_def axios_get_def)

lemma addUser_App_success:
  "net ADD_URL = Inr ds \<Longrightarrow>
   addUser_App net = (Inr (), [Get ADD_URL, SetUsersWith (\<lambda>prevUsers. array_at ds 0 # prevUsers)])"
  by (simp add: addUser_App_def axios_get_def)

lemma addUser_success_users:
  "net ADD_URL = Inr ds \<Longrightarrow> users (commit (snd (addUser net)) st) = array_at ds 0 # users st"
  by (simp add: addUser_success commit_Cons commit_Nil)

lemma addUser_App_success_users:
  "net ADD_URL = Inr ds \<Longrightarrow> users (commit (snd (addUser_App net)) st) = array_at ds 0 # users st"
  by (simp add: addUser_App_success commit_Cons commit_Nil)

text \<open>
  Claim C5. After a successful add action (in either variant) the list is one longer,
  element 0 of the response is at position 0 (the returned record, when the response holds
  one), and every record held before is one position further down.
\<close>

theorem addUser_prepends:
  assumes "net ADD_URL = Inr ds" and "add \<in> {addUser, addUser_App}"
  shows "fst (add net) = Inr ()
       \<and> length (users (commit (snd (add net)) st)) = length (users st) + 1
       \<and> users (commit (snd (add net)) st) ! 0 = array_at ds 0
       \<and> (\<forall>r rest. ds = Record r # rest \<longrightarrow> users (commit (snd (add net)) st) ! 0 = Record r)
       \<and> (\<forall>i < length (users st). users (commit (snd (add net)) st) ! (i + 1) = users st ! i)
       \<and> users (commit (snd (add net)) st) = array_at ds 0 # users st"
proof -
  have u: "users (commit (snd (add net)) st) = array_at ds 0 # users st"
    using assms addUser_success_users addUser_App_success_users by blast
  have c: "fst (add net) = Inr ()"
    using assms by (auto simp: addUser_success addUser_App_success)
  show ?thesis unfolding u using c by (simp add: array_at_def)
qed

theorem addUser_prepends_witness:
  "(\<lambda>url. Inr [Record user42]) ADD_URL = Inr [Record user42]
   \<and> addUser \<in> {addUser, addUser_App}
   \<and> length (users (commit (snd (addUser (\<lambda>url. Inr [Record user42])))
                 (initial_state\<lparr>users := [Undefined]\<rparr>))) = 2
   \<and> users (commit (snd (addUser (\<lambda>url. Inr [Record user42])))
         (initial_state\<lparr>users := [Undefined]\<rparr>)) = [Record user42, Undefined]"
proof -
  have h: "(\<lambda>url. Inr [Record user42]) ADD_URL = Inr [Record user42]" by simp
  have m: "addUser \<in> {addUser, addUser_App}" by simp
  from addUser_prepends [OF h m, of "initial_state\<lparr>users := [Undefined]\<rparr>"] h m
  show ?thesis by (simp add: array_at_def)
qed

text \<open>
  Claim C6, as amended. A failed add action leaves the state as it was, in both variants.
  \<^verbatim>\<open>part_000\<close> raises exactly one alert, whose text tells HTTP 429 from every other
  failure; \<^verbatim>\<open>App.js\<close> raises none and writes one line to the error console.
\<close>

theorem addUser_failure_keeps_users:
  assumes "net ADD_URL = Inl e"
  shows "fst (addUser net) = Inr ()
       \<and> commit (snd (addUser net)) st = st
       \<and> alerts (snd (addUser net)) =
           [if e = AxiosError (Some 429)
            then (''Too Many Requests'', ''Please wait before adding more users.'')
            else (''Error'', ''Failed to add a new user. Please try again.'')]
       \<and> fst (addUser_App net) = Inr ()
       \<and> commit (snd (addUser_App net)) st = st
       \<and> alerts (snd (addUser_App net)) = []
       \<and> snd (addUser_App net) = [Get ADD_URL, ConsoleError ''Error fetching new user: '' e]"
proof -
  have "is_429 e \<longleftrightarrow> e = AxiosError (Some 429)"
    by (cases e rule: is_429.cases) simp_all
  with assms show ?thesis
    by (simp add: addUser_def addUser_App_def axios_get_def commit_Cons commit_Nil)
qed

theorem addUser_failure_keeps_users_witness:
  "(\<lambda>url. Inl (AxiosError None)) ADD_URL = Inl (AxiosError None)
   \<and> commit (snd (addUser (\<lambda>url. Inl (AxiosError None)))) initial_state = initial_state
   \<and> alerts (snd (addUser (\<lambda>url. Inl (AxiosError None)))) =
       [(''Error'', ''Failed to add a new user. Please try again.'')]
   \<and> commit (snd (addUser_App (\<lambda>url. Inl (AxiosError None)))) initial_state = initial_state
   \<and> alerts (snd (addUser_App (\<lambda>url. Inl (AxiosError None)))) = []"
proof -
  have h: "(\<lambda>url. Inl (AxiosError None)) ADD_URL = Inl (AxiosError None)" by simp
  from addUser_failure_keeps_users [OF h, of initial_state] h show ?thesis
    by (simp add: commit_Cons commit_Nil)
qed

text \<open>
  The claim as first stated asks for a notification after every failed add action. In
  \<^verbatim>\<open>App.js\<close> a request that fails with HTTP 500 raises no alert.
\<close>

theorem addUser_App_failure_is_silent:
  "fst (addUser_App (\<lambda>url. Inl (AxiosError (Some 500)))) = Inr ()
   \<and> alerts (snd (addUser_App (\<lambda>url. Inl (AxiosError (Some 500))))) = []"
  by (simp add: addUser_App_def axios_get_def)

subsection \<open>The requests of the two fetch sites\<close>

lemma spec_batch_url_10: "spec_batch_url 10 = API_URL"
  by (simp add: spec_batch_url_def API_URL_def digit_char_def decimal.simps)

lemma spec_batch_url_1: "spec_batch_url (Suc 0) = ADD_URL"
  by (simp add: spec_batch_url_def ADD_URL_def digit_char_def decimal.simps)

text \<open>
  Claim C7, as amended. There is no fetcher with a count parameter. \<^verbatim>\<open>fetchUsers\<close> takes
  no argument and issues exactly one GET whose size parameter is 10, on mount and on every
  accepted refresh; the add action issues exactly one GET of its own whose size parameter
  is 1.
\<close>

theorem fetch_sites_fixed_sizes:
  "http_gets (snd (fetchUsers net)) = [spec_batch_url 10]
   \<and> http_gets (snd (loadData net)) = [spec_batch_url 10]
   \<and> http_gets (snd (onRefresh_App net)) = [spec_batch_url 10]
   \<and> http_gets (snd (onRefresh net currentTime st)) =
       (if currentTime - lastRefreshTime st < 10000 then [] else [spec_batch_url 10])
   \<and> http_gets (snd (addUser net)) = [spec_batch_url 1]
   \<and> http_gets (snd (addUser_App net)) = [spec_batch_url 1]"
proof -
  obtain r tr where f: "fetchUsers net = (Inr r, tr)"
    using fetchUsers_returns [of net] by (cases "fetchUsers net") auto
  then have g: "http_gets tr = [API_URL]" using fetchUsers_gets [of net] by simp
  have "http_gets (snd (fetchUsers net)) = [spec_batch_url 10]"
    by (simp add: fetchUsers_gets spec_batch_url_10)
  moreover have "http_gets (snd (loadData net)) = [spec_batch_url 10]"
    using f g by (simp add: loadData_def http_gets_append spec_batch_url_10)
  moreover have "http_gets (snd (onRefresh_App net)) = [spec_batch_url 10]"
    using f g by (simp add: onRefresh_App_def http_gets_append spec_batch_url_10)
  moreover have "http_gets (snd (onRefresh net currentTime st)) =
       (if currentTime - lastRefreshTime st < 10000 then [] else [spec_batch_url 10])"
    using f g by (simp add: onRefresh_def http_gets_append spec_batch_url_10)
  moreover have "http_gets (snd (addUser net)) = [spec_batch_url 1]"
    by (cases "net ADD_URL")
       (simp_all add: addUser_def axios_get_def http_gets_append spec_batch_url_1)
  moreover have "http_gets (snd (addUser_App net)) = [spec_batch_url 1]"
    by (cases "net ADD_URL")
       (simp_all add: addUser_App_def axios_get_def http_gets_append spec_batch_url_1)
  ultimately show ?thesis by blast
qed

text \<open>
  The claim as first stated lets the caller choose the size. The request of
  \<^verbatim>\<open>fetchUsers\<close> is not the one for a batch of 1, which is why \<^verbatim>\<open>addUser\<close> does not
  call it.
\<close>

theorem fetchUsers_ignores_count:
  "http_gets (snd (fetchUsers (\<lambda>url. Inr []))) \<noteq> [spec_batch_url 1]"
  by (simp add: fetchUsers_gets spec_batch_url_1 API_URL_def ADD_URL_def)

subsection \<open>Row keys\<close>

text \<open>The decimal form of an integer determines the integer.\<close>

lemma digit_char_inj: "a < 10 \<Longrightarrow> b < 10 \<Longrightarrow> digit_char a = digit_char b \<Longrightarrow> a = b"
proof -
  assume a: "a < 10" and b: "b < 10" and e: "digit_char a = digit_char b"
  from a have "a \<in> {0,1,2,3,4,5,6,7,8,9}" by auto
  moreover from b have "b \<in> {0,1,2,3,4,5,6,7,8,9}" by auto
  ultimately show ?thesis using e by (auto simp: digit_char_def)
qed

lemma digit_char_not_minus: "d < 10 \<Longrightarrow> digit_char d \<noteq> CHR ''-''"
proof -
  assume a: "d < 10"
  then have "d \<in> {0,1,2,3,4,5,6,7,8,9}" by auto
  then show ?thesis by (auto simp: digit_char_def)
qed

lemma decimal_nonempty: "decimal n \<noteq> []"
  by (subst decimal.simps) simp

lemma decimal_head_digit: "\<exists>d<10. hd (decimal n) = digit_char d"
proof (induction n rule: decimal.induct)
  case (1 n)
  show ?case
  proof (cases "n < 10")
    case True
    then show ?thesis by (subst decimal.simps) auto
  next
    case False
    with 1 obtain d where "d < 10" "hd (decimal (n div 10)) = digit_char d" by auto
    with False show ?thesis
      by (subst decimal.simps) (auto simp: decimal_nonempty)
  qed
qed

lemma decimal_small: "n < 10 \<Longrightarrow> decimal n = [digit_char n]"
  by (subst decimal.simps) simp

lemma decimal_large:
  "\<not> n < 10 \<Longrightarrow> decimal n = decimal (n div 10) @ [digit_char (n mod 10)]"
  by (subst decimal.simps) simp

lemma decimal_inj: "decimal a = decimal b \<Longrightarrow> a = b"
proof (induction a arbitrary: b rule: decimal.induct)
  case (1 n)
  note eq = \<open>decimal n = decimal b\<close>
  show ?case
  proof (cases "n < 10")
    case small_n: True
    show ?thesis
    proof (cases "b < 10")
      case True
      with small_n eq have "digit_char n = digit_char b"
        by (simp add: decimal_small)
      with small_n True show ?thesis by (rule digit_char_inj)
    next
      case False
      with small_n eq have "decimal (b div 10) = []"
        by (simp add: decimal_small decimal_large)
      then show ?thesis by (simp add: decimal_nonempty)
    qed
  next
    case large_n: False
    show ?thesis
    proof (cases "b < 10")
      case True
      with large_n eq have "decimal (n div 10) = []"
        by (simp add: decimal_small decimal_large)
      then show ?thesis by (simp add: decimal_nonempty)
    next
      case False
      with large_n eq have e1: "decimal (n div 10) = decimal (b div 10)"
        and e2: "digit_char (n mod 10) = digit_char (b mod 10)"
        by (simp_all add: decimal_large)
      from 1(1) [OF large_n e1] have q: "n div 10 = b div 10" .
      have r: "n mod 10 = b mod 10" by (rule digit_char_inj [OF _ _ e2]) simp_all
      have "n = 10 * (n div 10) + n mod 10" by simp
      also have "\<dots> = 10 * (b div 10) + b mod 10" using q r by simp
      also have "\<dots> = b" by simp
      finally show ?thesis .
    qed
  qed
qed

lemma signed_decimal_inj: "signed_decimal i = signed_decimal j \<Longrightarrow> i = j"
proof -
  assume e: "signed_decimal i = signed_decimal j"
  have hd_pos: "\<And>n. hd (decimal n) \<noteq> CHR ''-''"
    using decimal_head_digit digit_char_not_minus by metis
  show ?thesis
  proof (cases "i < 0"; cases "j < 0")
    assume "i < 0" "j < 0"
    with e have "decimal (nat (- i)) = decimal (nat (- j))" by (simp add: signed_decimal_def)
    then have "nat (- i) = nat (- j)" by (rule decimal_inj)
    with \<open>i < 0\<close> \<open>j < 0\<close> show ?thesis by simp
  next
    assume "i < 0" "\<not> j < 0"
    with e have "CHR ''-'' # decimal (nat (- i)) = decimal (nat j)" by (simp add: signed_decimal_def)
    then have "hd (decimal (nat j)) = CHR ''-''" by (metis list.sel(1))
    with hd_pos show ?thesis by blast
  next
    assume "\<not> i < 0" "j < 0"
    with e have "CHR ''-'' # decimal (nat (- j)) = decimal (nat i)" by (simp add: signed_decimal_def)
    then have "hd (decimal (nat i)) = CHR ''-''" by (metis list.sel(1))
    with hd_pos show ?thesis by blast
  next
    assume "\<not> i < 0" "\<not> j < 0"
    with e have "decimal (nat i) = decimal (nat j)" by (simp add: signed_decimal_def)
    then have "nat i = nat j" by (rule decimal_inj)
    with \<open>\<not> i < 0\<close> \<open>\<not> j < 0\<close> show ?thesis by simp
  qed
qed

text \<open>Within the safe integers the parse is exact and the digits are printed in full.\<close>

lemma round_to_double_small: "n < 2 ^ 53 \<Longrightarrow> round_to_double n = n"
  by (simp add: round_to_double_def)

lemma JSON_number_safe:
  assumes "\<bar>i\<bar> \<le> 2 ^ 53 - 1"
  shows "JSON_number i = Num i"
proof -
  have s: "nat \<bar>i\<bar> < 2 ^ 53" using assms by simp
  have "(2::nat) ^ 53 \<le> 2 ^ 1024" by (rule power_increasing) simp_all
  with s have "\<not> 2 ^ 1024 \<le> nat \<bar>i\<bar>" by simp
  with s show ?thesis
    by (simp add: JSON_number_def round_to_double_small Let_def)
qed

lemma keyExtractor_safe:
  assumes "\<bar>id' u\<bar> \<le> 2 ^ 53 - 1"
  shows "keyExtractor render (Record u) = Inr (signed_decimal (id' u))"
proof -
  from assms have "\<bar>id' u\<bar> \<le> 2 ^ 53" by simp
  with assms show ?thesis
    by (simp add: keyExtractor_def JSON_number_safe toString_def)
qed

text \<open>
  Claim C8, as amended. The key of a row is the string form of the Number its record's
  identifier parses to. When the identifiers of a batch are safe integers (of magnitude at
  most \<open>2 ^ 53 - 1\<close>) every key is the decimal form of its identifier, and pairwise
  distinct identifiers give pairwise distinct keys.
\<close>

theorem keyExtractor_keys_distinct:
  "map (keyExtractor render) (map Record batch) =
     map (\<lambda>u. Inr (toString render (JSON_number (id' u)))) batch
   \<and> ((\<forall>u \<in> set batch. \<bar>id' u\<bar> \<le> 2 ^ 53 - 1) \<longrightarrow>
        map (keyExtractor render) (map Record batch) =
          map (\<lambda>u. Inr (signed_decimal (id' u))) batch
      \<and> (distinct (map id' batch) \<longrightarrow>
           distinct (map (keyExtractor render) (map Record batch))))"
proof (intro conjI impI)
  show "map (keyExtractor render) (map Record batch) =
     map (\<lambda>u. Inr (toString render (JSON_number (id' u)))) batch"
    by (simp add: keyExtractor_def)
next
  assume safe: "\<forall>u \<in> set batch. \<bar>id' u\<bar> \<le> 2 ^ 53 - 1"
  then show k: "map (keyExtractor render) (map Record batch) =
          map (\<lambda>u. Inr (signed_decimal (id' u))) batch"
    by (simp add: keyExtractor_safe)
  assume d: "distinct (map id' batch)"
  have "inj (\<lambda>i. (Inr (signed_decimal i) :: js_error + string))"
    by (rule injI) (auto dest: signed_decimal_inj)
  then have "distinct (map (\<lambda>i. (Inr (signed_decimal i) :: js_error + string))
                         (map id' batch))"
    using d by (simp only: distinct_map) (auto intro: inj_on_subset)
  then show "distinct (map (keyExtractor render) (map Record batch))"
    unfolding k by (simp add: comp_def)
qed

theorem keyExtractor_keys_distinct_witness:
  "\<bar>id' user42\<bar> \<le> 2 ^ 53 - 1 \<and> \<bar>id' user7\<bar> \<le> 2 ^ 53 - 1
   \<and> distinct (map id' [user42, user7])
   \<and> map (keyExtractor (\<lambda>m. [])) (map Record [user42, user7]) = [Inr ''42'', Inr ''7'']
   \<and> distinct (map (keyExtractor (\<lambda>m. [])) (map Record [user42, user7]))"
proof -
  have s: "\<forall>u \<in> set [user42, user7]. \<bar>id' u\<bar> \<le> 2 ^ 53 - 1"
    by (simp add: user42_def user7_def)
  have h: "distinct (map id' [user42, user7])" by (simp add: user42_def user7_def)
  have k: "map (\<lambda>u. (Inr (signed_decimal (id' u)) :: js_error + string)) [user42, user7] =
             [Inr ''42'', Inr ''7'']"
    by (simp add: user42_def user7_def signed_decimal_def digit_char_def decimal.simps)
  from keyExtractor_keys_distinct [of "\<lambda>m. []" "[user42, user7]"] s h
  have "map (keyExtractor (\<lambda>m. [])) (map Record [user42, user7]) =
          map (\<lambda>u. Inr (signed_decimal (id' u))) [user42, user7]"
    and "distinct (map (keyExtractor (\<lambda>m. [])) (map Record [user42, user7]))"
    by blast+
  with s h k show ?thesis by simp
qed

text \<open>
  The claim as first stated bounds no identifier. The identifiers \<open>2 ^ 53\<close> and
  \<open>2 ^ 53 + 1\<close> differ, parse to the same Number and get the same key. That Number is
  printed in digits, so the keys do not depend on \<open>render\<close>.
\<close>

theorem keyExtractor_large_ids_collide:
  "distinct (map id' [big_a, big_b])
   \<and> JSON_number (id' big_a) = Num 9007199254740992
   \<and> JSON_number (id' big_b) = Num 9007199254740992
   \<and> keyExtractor (\<lambda>m. []) (Record big_a) = Inr ''9007199254740992''
   \<and> keyExtractor (\<lambda>m. []) (Record big_b) = Inr ''9007199254740992''"
proof -
  have b: "bit_length 9007199254740993 = 54" "bit_length 9007199254740992 = 54"
    by (simp_all add: bit_length.simps)
  have a: "JSON_number (id' big_a) = Num 9007199254740992"
    by (simp add: big_a_def JSON_number_def round_to_double_def b Let_def)
  have c: "JSON_number (id' big_b) = Num 9007199254740992"
    by (simp add: big_b_def JSON_number_def round_to_double_def b Let_def)
  have t: "toString (\<lambda>m. []) (Num 9007199254740992) = ''9007199254740992''"
    by (simp add: toString_def signed_decimal_def digit_char_def decimal.simps)
  have d: "distinct (map id' [big_a, big_b])" by (simp add: big_a_def big_b_def)
  from a c t d show ?thesis by (simp add: keyExtractor_def)
qed

subsection \<open>The initials badge\<close>

text \<open>
  Claim C9. On the initials platform \<^verbatim>\<open>renderItem\<close> reads index 0 of both names with
  no guard. When both names are non-empty the two reads are in range and the badge is the
  first unit of the first name followed by the first unit of the last name. When a name
  is empty its read is out of range and the badge shows the word \<^verbatim>\<open>undefined\<close> in its
  place: non-emptiness is needed for the badge to be the initials.
\<close>

theorem renderItem_initials:
  "(first_name u \<noteq> [] \<and> last_name u \<noteq> [] \<longrightarrow>
      string_at (first_name u) 0 = Some [hd (first_name u)]
    \<and> string_at (last_name u) 0 = Some [hd (last_name u)]
    \<and> renderItem ''ios'' (Record u) =
        Inr \<lparr>name_text = first_name u @ ascii '' '' @ last_name u,
             avatar_of = InitialsBadge [hd (first_name u), hd (last_name u)]\<rparr>)
   \<and> (first_name u = [] \<longrightarrow>
      string_at (first_name u) 0 = None
    \<and> renderItem ''ios'' (Record u) =
        Inr \<lparr>name_text = first_name u @ ascii '' '' @ last_name u,
             avatar_of = InitialsBadge
               (ascii ''undefined'' @ interpolate (string_at (last_name u) 0))\<rparr>)
   \<and> (last_name u = [] \<longrightarrow>
      string_at (last_name u) 0 = None
    \<and> renderItem ''ios'' (Record u) =
        Inr \<lparr>name_text = first_name u @ ascii '' '' @ last_name u,
             avatar_of = InitialsBadge
               (interpolate (string_at (first_name u) 0) @ ascii ''undefined'')\<rparr>)"
  by (simp add: renderItem_def string_at_def interpolate_def hd_conv_nth)

theorem renderItem_initials_witness:
  "first_name user42 \<noteq> [] \<and> last_name user42 \<noteq> []
   \<and> renderItem ''ios'' (Record user42) =
       Inr \<lparr>name_text = ascii ''Ada Byron'', avatar_of = InitialsBadge (ascii ''AB'')\<rparr>
   \<and> last_name user7 = []
   \<and> renderItem ''ios'' (Record user7) =
       Inr \<lparr>name_text = ascii ''Al '', avatar_of = InitialsBadge (ascii ''Aundefined'')\<rparr>"
  using renderItem_initials [of user42] renderItem_initials [of user7]
  by (simp add: user42_def user7_def ascii_def string_at_def interpolate_def)

subsection \<open>The add action on an empty response\<close>

text \<open>
  Claim C10. The add action prepends element 0 of the response without looking at its
  length. A response that starts with a record prepends that record, and its key is
  defined. A successful response with an empty array prepends \<^verbatim>\<open>undefined\<close>, on which
  the key extraction (and the row renderer) throws.
\<close>

theorem addUser_unchecked_index:
  "(net ADD_URL = Inr (Record r # rest) \<longrightarrow>
      users (commit (snd (addUser net)) st) = Record r # users st
    \<and> users (commit (snd (addUser_App net)) st) = Record r # users st
    \<and> keyExtractor render (hd (users (commit (snd (addUser net)) st))) =
        Inr (toString render (JSON_number (id' r))))
   \<and> (net ADD_URL = Inr [] \<longrightarrow>
      users (commit (snd (addUser net)) st) = Undefined # users st
    \<and> users (commit (snd (addUser_App net)) st) = Undefined # users st
    \<and> keyExtractor render (hd (users (commit (snd (addUser net)) st))) = Inl TypeError
    \<and> renderItem Platform_OS (hd (users (commit (snd (addUser net)) st))) = Inl TypeError)"
  by (simp add: addUser_success_users addUser_App_success_users array_at_def
        keyExtractor_def renderItem_def)

theorem addUser_unchecked_index_witness:
  "users (commit (snd (addUser (\<lambda>url. Inr [Record user42]))) initial_state) = [Record user42]
   \<and> users (commit (snd (addUser (\<lambda>url. Inr []))) initial_state) = [Undefined]
   \<and> keyExtractor (\<lambda>m. [])
         (hd (users (commit (snd (addUser (\<lambda>url. Inr []))) initial_state))) = Inl TypeError"
  using addUser_unchecked_index
          [of "\<lambda>url. Inr [Record user42]" user42 "[]" initial_state "\<lambda>m. []" "''ios''"]
        addUser_unchecked_index
          [of "\<lambda>url. Inr []" user42 "[]" initial_state "\<lambda>m. []" "''ios''"]
  by (simp add: initial_state_def keyExtractor_def)

end
